theory Spec2Isabelle
  imports Main "HOL-Library.Word"
begin

unbundle bit_operations_syntax

section \<open>Machine types and constants of jalloc.hpp\<close>

text \<open>
  The development follows the scalar code of \<^verbatim>\<open>src/jalloc.hpp\<close>: wherever the header
  selects a vector specialisation by a feature macro (AVX-512, AVX2, NEON) the branch
  taken when no such macro is defined is the one embedded.  Two places differ between
  processor families without being vector code (\<^verbatim>\<open>get_bucket_index\<close> and the search for
  the oldest entry in \<^verbatim>\<open>cache_block\<close>); both variants are embedded and selected by the
  \<open>arch\<close> of the build.  \<^verbatim>\<open>size_t\<close>, \<^verbatim>\<open>uintptr_t\<close> and pointers are 64-bit words, so
  that every addition and subtraction wraps as it does in the program.
\<close>

type_synonym u8 = "8 word"
type_synonym u16 = "16 word"
type_synonym u64 = "64 word"
type_synonym addr = "64 word"

datatype arch = X86_64 | Generic

definition CACHE_LINE_SIZE :: u64 where "CACHE_LINE_SIZE = 64"
definition PG_SIZE :: u64 where "PG_SIZE = 4096"
definition TINY_LARGE_THRESHOLD :: u64 where "TINY_LARGE_THRESHOLD = 64"
definition SMALL_LARGE_THRESHOLD :: u64 where "SMALL_LARGE_THRESHOLD = 256"
definition ALIGNMENT :: u64 where "ALIGNMENT = 64"
definition MAX_CACHE_SIZE :: u64 where "MAX_CACHE_SIZE = 64 * 1024 * 1024"
definition MIN_CACHE_BLOCK :: u64 where "MIN_CACHE_BLOCK = 4 * 1024"
definition MAX_CACHE_BLOCK :: u64 where "MAX_CACHE_BLOCK = 16 * 1024 * 1024"
definition CACHE_SIZE :: nat where "CACHE_SIZE = 32"
definition SIZE_CLASSES :: nat where "SIZE_CLASSES = 32"
definition TINY_CLASSES :: nat where "TINY_CLASSES = 8"
definition MAX_POOLS :: nat where "MAX_POOLS = 8"
definition BUCKET_SIZE :: nat where "BUCKET_SIZE = 4"
definition NUM_BUCKETS :: nat where "NUM_BUCKETS = 8"

definition SIZE_MASK :: u64 where "SIZE_MASK = 0x0000FFFFFFFFFFFF"
definition CLASS_MASK :: u64 where "CLASS_MASK = 0x00FF000000000000"
definition MMAP_FLAG :: u64 where "MMAP_FLAG = push_bit 62 1"
definition COALESCED_FLAG :: u64 where "COALESCED_FLAG = push_bit 61 1"
definition FREE_FLAG :: u64 where "FREE_FLAG = push_bit 63 1"
definition HEADER_MAGIC :: u64 where "HEADER_MAGIC = 0xDEADBEEF12345678"
definition MAGIC_MASK :: u64 where "MAGIC_MASK = 0xF000000000000000"
definition MAGIC_VALUE :: u64 where "MAGIC_VALUE = 0xA000000000000000"

text \<open>\<^verbatim>\<open>sizeof(block_header)\<close>: four 8-byte members, \<^verbatim>\<open>alignas(ALIGNMENT)\<close>.\<close>
definition HEADER_SIZE :: u64 where "HEADER_SIZE = 64"

text \<open>\<^verbatim>\<open>sizeof(bitmap)\<close>: eight 64-bit words.\<close>
definition BITMAP_SIZE :: u64 where "BITMAP_SIZE = 64"

text \<open>Number of significant bits of a natural number (0 for 0).\<close>
fun bit_length :: "nat \<Rightarrow> nat" where
  "bit_length n = (if n = 0 then 0 else Suc (bit_length (n div 2)))"

declare bit_length.simps [simp del]

text \<open>\<^verbatim>\<open>__builtin_clzll\<close>; the builtin is undefined at 0, where this gives 64.\<close>
definition builtin_clzll :: "u64 \<Rightarrow> nat" where
  "builtin_clzll x = 64 - bit_length (unat x)"

text \<open>\<^verbatim>\<open>__builtin_clz\<close> on the argument converted to \<^verbatim>\<open>unsigned int\<close>.\<close>
definition builtin_clz :: "u64 \<Rightarrow> nat" where
  "builtin_clz x = 32 - bit_length (unat (ucast x :: 32 word))"

fun trailing_zeros :: "nat \<Rightarrow> nat" where
  "trailing_zeros n = (if n = 0 then 64 else if odd n then 0 else Suc (trailing_zeros (n div 2)))"

declare trailing_zeros.simps [simp del]

text \<open>\<^verbatim>\<open>count_trailing_zeros\<close> (\<^verbatim>\<open>__builtin_ctzll\<close>); only called on non-zero words.\<close>
definition count_trailing_zeros :: "u64 \<Rightarrow> nat" where
  "count_trailing_zeros x = trailing_zeros (unat x)"

definition is_base_aligned :: "addr \<Rightarrow> bool" where
  "is_base_aligned ptr \<longleftrightarrow> ptr AND (ALIGNMENT - 1) = 0"

definition get_alignment_for_size :: "u64 \<Rightarrow> u64" where
  "get_alignment_for_size sz =
     (if sz \<le> CACHE_LINE_SIZE then CACHE_LINE_SIZE
      else if sz \<ge> PG_SIZE then PG_SIZE
      else push_bit (64 - builtin_clzll (sz - 1)) 1)"

section \<open>Size-class table\<close>

record size_class =
  sc_size :: u16
  slot_size :: u16
  blocks :: u16
  slack :: u16

text \<open>Entry \<open>i\<close> of the \<^verbatim>\<open>constexpr\<close> table; every member is cut to \<^verbatim>\<open>uint16_t\<close>.\<close>
definition size_classes :: "nat \<Rightarrow> size_class" where
  "size_classes i =
     (let sz = push_bit (i + 3) (1 :: u64);
          alignment = get_alignment_for_size sz;
          slot = (sz + alignment - 1) AND NOT (alignment - 1)
      in \<lparr> sc_size = ucast sz,
           slot_size = ucast slot,
           blocks = ucast (PG_SIZE div slot),
           slack = ucast (slot - sz) \<rparr>)"

section \<open>Block header\<close>

record block_header =
  data :: u64
  magic :: u64
  prev_physical :: addr
  next_physical :: addr

text \<open>The header left by \<^verbatim>\<open>new (ptr) block_header()\<close>: value-initialisation zeroes it.\<close>
definition zero_header :: block_header where
  "zero_header = \<lparr> data = 0, magic = 0, prev_physical = 0, next_physical = 0 \<rparr>"

definition encode :: "u64 \<Rightarrow> u8 \<Rightarrow> bool \<Rightarrow> block_header \<Rightarrow> block_header" where
  "encode sz cls is_fr h =
     h \<lparr> data := (sz AND SIZE_MASK) OR push_bit 48 (ucast cls) OR push_bit 63 (of_bool is_fr)
                 OR MAGIC_VALUE \<rparr>"

definition init :: "u64 \<Rightarrow> u8 \<Rightarrow> bool \<Rightarrow> addr \<Rightarrow> addr \<Rightarrow> block_header \<Rightarrow> block_header" where
  "init sz cls is_fr prev nxt h =
     (if sz > push_bit 47 1 then zero_header
      else (encode sz cls is_fr (h \<lparr> magic := HEADER_MAGIC \<rparr>))
             \<lparr> prev_physical := prev, next_physical := nxt \<rparr>)"

definition size_hdr :: "block_header \<Rightarrow> u64" where
  "size_hdr h = data h AND SIZE_MASK"

definition size_class_hdr :: "block_header \<Rightarrow> u8" where
  "size_class_hdr h = ucast (drop_bit 48 (data h AND CLASS_MASK))"

definition is_valid :: "block_header \<Rightarrow> bool" where
  "is_valid h =
     (if magic h = HEADER_MAGIC \<and> data h AND MAGIC_MASK = MAGIC_VALUE
      then size_hdr h \<le> push_bit 47 1 \<and>
           (unat (size_class_hdr h) < SIZE_CLASSES \<or> size_class_hdr h = 255)
      else False)"

definition set_free :: "bool \<Rightarrow> block_header \<Rightarrow> block_header" where
  "set_free is_fr h = h \<lparr> data := (data h AND NOT (push_bit 63 1)) OR push_bit 63 (of_bool is_fr) \<rparr>"

definition set_memory_mapped :: "bool \<Rightarrow> block_header \<Rightarrow> block_header" where
  "set_memory_mapped is_mm h = h \<lparr> data := (data h AND NOT MMAP_FLAG) OR push_bit 62 (of_bool is_mm) \<rparr>"

definition set_coalesced :: "bool \<Rightarrow> block_header \<Rightarrow> block_header" where
  "set_coalesced is_co h = h \<lparr> data := (data h AND NOT COALESCED_FLAG) OR push_bit 61 (of_bool is_co) \<rparr>"

definition is_free :: "block_header \<Rightarrow> bool" where
  "is_free h \<longleftrightarrow> data h AND push_bit 63 1 \<noteq> 0"

definition is_memory_mapped :: "block_header \<Rightarrow> bool" where
  "is_memory_mapped h \<longleftrightarrow> data h AND MMAP_FLAG \<noteq> 0"

definition is_coalesced :: "block_header \<Rightarrow> bool" where
  "is_coalesced h \<longleftrightarrow> data h AND COALESCED_FLAG \<noteq> 0"

section \<open>Per-thread state and memory\<close>

text \<open>
  Memory is an explicit store.  Block headers are kept as typed objects under the
  address they are written at (\<open>headers\<close>), payload bytes under their own addresses
  (\<open>bytes\<close>), and the bitmap of a pool under the pool's base address (\<open>bitmaps\<close>); reads
  of addresses nothing was written to return what the store holds, as a read of raw
  memory does.  The store does not relate a header to the payload bytes that overlap it.

  The collaborators outside the file are part of the state as the results they will
  give: \<open>host_new\<close> lists the addresses the aligned \<^verbatim>\<open>operator new\<close> returns next (none
  left, or a null entry: it throws), \<open>os_map\<close> the results of \<^verbatim>\<open>MAP_MEMORY\<close> (none left:
  null), \<open>os_remap\<close> those of \<^verbatim>\<open>mremap\<close>, \<open>os_advise\<close> whether the next \<^verbatim>\<open>madvise\<close>
  succeeds, and \<open>clock\<close> the readings of the time-stamp source.  What the program hands
  back is logged in \<open>host_live\<close>, \<open>os_unmapped\<close> and \<open>libc_freed\<close>.
\<close>

record cached_block =
  cb_ptr :: addr
  cb_size_class :: u8

record size_class_cache =
  tc_blocks :: "nat \<Rightarrow> cached_block"
  tc_count :: nat

type_synonym bitmap = "nat \<Rightarrow> u64"

record pool_entry =
  pe_p :: addr
  used_blocks :: u64

record cache_entry =
  ce_ptr :: addr
  ce_size :: u64
  last_use :: u64

record size_bucket =
  bk_count :: nat
  bk_entries :: "nat \<Rightarrow> cache_entry"

record large_block_cache_t =
  buckets :: "nat \<Rightarrow> size_bucket"
  total_cached :: u64

record jalloc_state =
  thread_cache :: "nat \<Rightarrow> size_class_cache"
  pm_pools :: "nat \<Rightarrow> nat \<Rightarrow> pool_entry"
  pm_pool_count :: "nat \<Rightarrow> nat"
  large_block_cache :: large_block_cache_t
  tiny_pools :: "nat \<Rightarrow> addr"
  bitmaps :: "addr \<Rightarrow> bitmap"
  headers :: "addr \<Rightarrow> block_header"
  bytes :: "addr \<Rightarrow> u8"
  build_arch :: arch
  build_linux :: bool
  host_new :: "addr list"
  host_live :: "addr list"
  os_map :: "addr list"
  os_remap :: "addr list"
  os_advise :: "bool list"
  os_unmapped :: "(addr \<times> u64) list"
  libc_freed :: "addr list"
  clock :: "nat \<Rightarrow> u64"
  clock_reads :: nat

text \<open>Writing \<open>n\<close> zero bytes from \<open>dst\<close> on (\<^verbatim>\<open>memset\<close>).\<close>
definition memset_zero :: "addr \<Rightarrow> u64 \<Rightarrow> (addr \<Rightarrow> u8) \<Rightarrow> (addr \<Rightarrow> u8)" where
  "memset_zero dst n b = (\<lambda>a. if a - dst < n then 0 else b a)"

text \<open>Copying \<open>n\<close> bytes from \<open>src\<close> to \<open>dst\<close> (\<^verbatim>\<open>memcpy\<close>).\<close>
definition memcpy :: "addr \<Rightarrow> addr \<Rightarrow> u64 \<Rightarrow> (addr \<Rightarrow> u8) \<Rightarrow> (addr \<Rightarrow> u8)" where
  "memcpy dst src n b = (\<lambda>a. if a - dst < n then b (src + (a - dst)) else b a)"

text \<open>A region of fresh or value-initialised memory: zero bytes, zero headers.\<close>
definition zero_region :: "addr \<Rightarrow> u64 \<Rightarrow> jalloc_state \<Rightarrow> jalloc_state" where
  "zero_region base len s =
     s \<lparr> bytes := memset_zero base len (bytes s),
         headers := (\<lambda>a. if a - base < len then zero_header else headers s a) \<rparr>"

text \<open>\<^verbatim>\<open>new (std::align_val_t{PG_SIZE}) pool()\<close> and the same for a \<^verbatim>\<open>tiny_pool\<close>: the
  constructor sets every bitmap word to all ones and zeroes \<^verbatim>\<open>memory\<close>.  \<open>None\<close>: the
  operator throws.\<close>
definition new_pool :: "jalloc_state \<Rightarrow> (addr \<times> jalloc_state) option" where
  "new_pool s =
     (case host_new s of
        [] \<Rightarrow> None
      | a # rest \<Rightarrow>
          if a = 0 then None
          else Some (a, (zero_region (a + BITMAP_SIZE) (PG_SIZE - BITMAP_SIZE) s)
                          \<lparr> bitmaps := (bitmaps s)(a := (\<lambda>_. 0xFFFFFFFFFFFFFFFF)),
                            host_new := rest,
                            host_live := a # host_live s \<rparr>))"

definition delete_pool :: "addr \<Rightarrow> jalloc_state \<Rightarrow> jalloc_state" where
  "delete_pool a s = s \<lparr> host_live := remove1 a (host_live s) \<rparr>"

text \<open>\<^verbatim>\<open>MAP_MEMORY(len)\<close>: anonymous memory comes zero-filled.\<close>
definition MAP_MEMORY :: "u64 \<Rightarrow> jalloc_state \<Rightarrow> addr \<times> jalloc_state" where
  "MAP_MEMORY len s =
     (case os_map s of
        [] \<Rightarrow> (0, s)
      | a # rest \<Rightarrow> (a, (if a = 0 then s else zero_region a len s) \<lparr> os_map := rest \<rparr>))"

definition UNMAP_MEMORY :: "addr \<Rightarrow> u64 \<Rightarrow> jalloc_state \<Rightarrow> jalloc_state" where
  "UNMAP_MEMORY a len s = s \<lparr> os_unmapped := (a, len) # os_unmapped s \<rparr>"

text \<open>\<^verbatim>\<open>madvise(a, len, MADV_DONTNEED)\<close>: on success the pages read as zero afterwards.\<close>
definition madvise_dontneed :: "addr \<Rightarrow> u64 \<Rightarrow> jalloc_state \<Rightarrow> bool \<times> jalloc_state" where
  "madvise_dontneed a len s =
     (case os_advise s of
        [] \<Rightarrow> (False, s)
      | ok # rest \<Rightarrow> (ok, (if ok then zero_region a len s else s) \<lparr> os_advise := rest \<rparr>))"

definition get_timestamp :: "jalloc_state \<Rightarrow> u64 \<times> jalloc_state" where
  "get_timestamp s = (clock s (clock_reads s), s \<lparr> clock_reads := Suc (clock_reads s) \<rparr>)"

section \<open>Thread cache\<close>

definition thread_cache_get :: "u8 \<Rightarrow> jalloc_state \<Rightarrow> addr \<times> jalloc_state" where
  "thread_cache_get cls s =
     (let c = thread_cache s (unat cls) in
      if tc_count c > 0
      then (cb_ptr (tc_blocks c (tc_count c - 1)),
            s \<lparr> thread_cache := (thread_cache s)(unat cls := c \<lparr> tc_count := tc_count c - 1 \<rparr>) \<rparr>)
      else (0, s))"

definition thread_cache_put :: "addr \<Rightarrow> u8 \<Rightarrow> jalloc_state \<Rightarrow> bool \<times> jalloc_state" where
  "thread_cache_put ptr cls s =
     (let c = thread_cache s (unat cls) in
      if tc_count c < CACHE_SIZE
      then (True,
            s \<lparr> thread_cache := (thread_cache s)(unat cls :=
                  c \<lparr> tc_blocks := (tc_blocks c)(tc_count c := \<lparr> cb_ptr = ptr, cb_size_class = cls \<rparr>),
                      tc_count := Suc (tc_count c) \<rparr>) \<rparr>)
      else (False, s))"


section \<open>Bitmap\<close>

text \<open>
  The scalar loop of \<^verbatim>\<open>find_free_block\<close>.  With one thread the compare-exchange on the
  word just read succeeds, so the first set bit of the first eligible non-zero word is
  cleared and its index returned; \<^verbatim>\<open>~size_t(0)\<close> when no word is eligible.
\<close>
function find_free_loop :: "u64 \<Rightarrow> bitmap \<Rightarrow> nat \<Rightarrow> u64 \<times> bitmap" where
  "find_free_loop align_mask bm i =
     (if i < 8 then
        (if of_nat i AND align_mask \<noteq> 0 then find_free_loop align_mask bm (Suc i)
         else let expected = bm i in
              if expected \<noteq> 0 then
                (let bit = count_trailing_zeros expected;
                     block_offset = of_nat (i * 64 + bit);
                     desired = expected AND NOT (push_bit bit 1)
                 in (block_offset, bm(i := desired)))
              else find_free_loop align_mask bm (Suc i))
      else (NOT 0, bm))"
  by pat_completeness auto
termination
  by (relation "measure (\<lambda>(m, bm, i). 8 - i)") auto

declare find_free_loop.simps [simp del]

definition find_free_block :: "u64 \<Rightarrow> bitmap \<Rightarrow> u64 \<times> bitmap" where
  "find_free_block sz bm =
     (let alignment = get_alignment_for_size sz;
          align_mask = (alignment div 64) - 1
      in find_free_loop align_mask bm 0)"

definition mark_free :: "u64 \<Rightarrow> bitmap \<Rightarrow> bitmap" where
  "mark_free index bm =
     (let word_idx = unat (index div 64); bit_idx = unat (index mod 64)
      in bm(word_idx := bm word_idx OR push_bit bit_idx 1))"

section \<open>Pools\<close>

text \<open>\<^verbatim>\<open>pool::allocate\<close>; \<^verbatim>\<open>memory\<close> starts after the bitmap.\<close>
definition pool_allocate :: "addr \<Rightarrow> size_class \<Rightarrow> jalloc_state \<Rightarrow> addr \<times> jalloc_state" where
  "pool_allocate pl sc s =
     (case find_free_block (ucast (sc_size sc)) (bitmaps s pl) of
        (index, bm) \<Rightarrow>
          if index \<noteq> NOT 0
          then ((pl + BITMAP_SIZE) + index * ucast (slot_size sc), s \<lparr> bitmaps := (bitmaps s)(pl := bm) \<rparr>)
          else (0, s \<lparr> bitmaps := (bitmaps s)(pl := bm) \<rparr>))"

text \<open>\<^verbatim>\<open>pool::deallocate\<close>; \<open>None\<close> is the integer division by a zero slot size.\<close>
definition pool_deallocate :: "addr \<Rightarrow> addr \<Rightarrow> size_class \<Rightarrow> jalloc_state \<Rightarrow> jalloc_state option" where
  "pool_deallocate pl ptr sc s =
     (let offset = ptr - (pl + BITMAP_SIZE) in
      if slot_size sc = 0 then None
      else Some (s \<lparr> bitmaps := (bitmaps s)(pl := mark_free (offset div ucast (slot_size sc)) (bitmaps s pl)) \<rparr>))"

definition allocate_tiny :: "addr \<Rightarrow> u8 \<Rightarrow> jalloc_state \<Rightarrow> addr \<times> jalloc_state" where
  "allocate_tiny pl cls s =
     (let sz = push_bit 3 (ucast cls + 1) :: u64;
          slot = (sz + HEADER_SIZE + ALIGNMENT - 1) AND NOT (ALIGNMENT - 1);
          max_blocks = (PG_SIZE - BITMAP_SIZE) div slot
      in case find_free_block sz (bitmaps s pl) of
           (index, bm) \<Rightarrow>
             let s1 = s \<lparr> bitmaps := (bitmaps s)(pl := bm) \<rparr>;
                 block = (pl + BITMAP_SIZE) + index * slot
             in if index \<noteq> NOT 0 \<and> index < max_blocks \<and>
                   block + slot \<le> (pl + BITMAP_SIZE) + (PG_SIZE - BITMAP_SIZE)
                then (block, s1) else (0, s1))"

definition deallocate_tiny :: "addr \<Rightarrow> addr \<Rightarrow> u8 \<Rightarrow> jalloc_state \<Rightarrow> jalloc_state" where
  "deallocate_tiny pl ptr cls s =
     (let sz = push_bit 3 (ucast cls + 1) :: u64;
          slot = (sz + HEADER_SIZE + ALIGNMENT - 1) AND NOT (ALIGNMENT - 1);
          offset = ptr - (pl + BITMAP_SIZE);
          index = offset div slot
      in if index * slot < PG_SIZE - BITMAP_SIZE
         then s \<lparr> bitmaps := (bitmaps s)(pl := mark_free index (bitmaps s pl)) \<rparr>
         else s)"

section \<open>Pool manager\<close>

text \<open>The scan of \<^verbatim>\<open>pool_manager::allocate\<close> over the \<open>n\<close> pools of class \<open>c\<close>.\<close>
function pm_allocate_loop :: "nat \<Rightarrow> size_class \<Rightarrow> nat \<Rightarrow> nat \<Rightarrow> jalloc_state \<Rightarrow> addr \<times> jalloc_state" where
  "pm_allocate_loop c sc i n s =
     (if i < n then
        (let e = pm_pools s c i in
         case pool_allocate (pe_p e) sc s of
           (ptr, s1) \<Rightarrow>
             if ptr \<noteq> 0
             then (ptr, s1 \<lparr> pm_pools := (pm_pools s1)(c := (pm_pools s1 c)(i := e \<lparr> used_blocks := used_blocks e + 1 \<rparr>)) \<rparr>)
             else pm_allocate_loop c sc (Suc i) n s1)
      else (0, s))"
  by pat_completeness auto
termination
  by (relation "measure (\<lambda>(c, sc, i, n, s). n - i)") auto

declare pm_allocate_loop.simps [simp del]

text \<open>\<^verbatim>\<open>pool_manager::allocate\<close>.  The function is \<^verbatim>\<open>noexcept\<close>: when \<^verbatim>\<open>operator new\<close>
  throws the program is terminated, which is the result \<open>None\<close>.\<close>
definition pool_manager_allocate :: "u8 \<Rightarrow> jalloc_state \<Rightarrow> (addr \<times> jalloc_state) option" where
  "pool_manager_allocate cls s =
     (let c = unat cls; sc = size_classes c in
      case pm_allocate_loop c sc 0 (pm_pool_count s c) s of
        (ptr, s1) \<Rightarrow>
          if ptr \<noteq> 0 then Some (ptr, s1)
          else if pm_pool_count s1 c < MAX_POOLS then
            (case new_pool s1 of
               None \<Rightarrow> None
             | Some (np, s2) \<Rightarrow>
                 (let s3 = s2 \<lparr> pm_pools := (pm_pools s2)(c := (pm_pools s2 c)
                                   (pm_pool_count s2 c := \<lparr> pe_p = np, used_blocks = 1 \<rparr>)) \<rparr>
                  in case pool_allocate np sc s3 of
                       (ptr2, s4) \<Rightarrow>
                         if ptr2 \<noteq> 0
                         then Some (ptr2, s4 \<lparr> pm_pool_count := (pm_pool_count s4)(c := Suc (pm_pool_count s4 c)) \<rparr>)
                         else Some (0, delete_pool np s4)))
          else Some (0, s1))"

text \<open>The scan of \<^verbatim>\<open>pool_manager::deallocate\<close> for the pool whose page holds \<open>ptr\<close>.\<close>
function pm_deallocate_loop :: "addr \<Rightarrow> nat \<Rightarrow> size_class \<Rightarrow> nat \<Rightarrow> nat \<Rightarrow> jalloc_state \<Rightarrow> jalloc_state option" where
  "pm_deallocate_loop ptr c sc i n s =
     (if i < n then
        (let e = pm_pools s c i; pool_start = pe_p e; pool_end = pool_start + PG_SIZE in
         if ptr \<ge> pool_start \<and> ptr < pool_end then
           (case pool_deallocate pool_start ptr sc s of
              None \<Rightarrow> None
            | Some s1 \<Rightarrow>
                (let u = used_blocks e - 1;
                     s2 = s1 \<lparr> pm_pools := (pm_pools s1)(c := (pm_pools s1 c)(i := e \<lparr> used_blocks := u \<rparr>)) \<rparr>
                 in if u = 0 then
                      (let s3 = delete_pool pool_start s2;
                           cnt = pm_pool_count s3 c - 1;
                           s4 = s3 \<lparr> pm_pool_count := (pm_pool_count s3)(c := cnt) \<rparr>
                       in Some (s4 \<lparr> pm_pools := (pm_pools s4)(c := (pm_pools s4 c)(i := pm_pools s4 c cnt)) \<rparr>))
                    else Some s2))
         else pm_deallocate_loop ptr c sc (Suc i) n s)
      else Some s)"
  by pat_completeness auto
termination
  by (relation "measure (\<lambda>(ptr, c, sc, i, n, s). n - i)") auto

declare pm_deallocate_loop.simps [simp del]

definition pool_manager_deallocate :: "addr \<Rightarrow> u8 \<Rightarrow> jalloc_state \<Rightarrow> jalloc_state option" where
  "pool_manager_deallocate ptr cls s =
     (if ptr AND NOT (PG_SIZE - 1) = 0 then Some s
      else if unat cls \<ge> SIZE_CLASSES then Some s
      else pm_deallocate_loop ptr (unat cls) (size_classes (unat cls)) 0 (pm_pool_count s (unat cls)) s)"

section \<open>Large-block cache\<close>

function bucket_index_loop :: "u64 \<Rightarrow> u64 \<Rightarrow> nat \<Rightarrow> nat" where
  "bucket_index_loop sz threshold index =
     (if threshold < sz \<and> index < 7
      then bucket_index_loop sz (push_bit 1 threshold) (Suc index)
      else index)"
  by pat_completeness auto
termination
  by (relation "measure (\<lambda>(sz, t, i). 7 - i)") auto

declare bucket_index_loop.simps [simp del]

text \<open>\<^verbatim>\<open>get_bucket_index\<close>: the count-leading-zeros form of the \<^verbatim>\<open>__x86_64__\<close> and
  \<^verbatim>\<open>__aarch64__\<close> branches, the doubling loop (bounded by \<^verbatim>\<open>NUM_BUCKETS - 1\<close>) otherwise.\<close>
definition get_bucket_index :: "arch \<Rightarrow> u64 \<Rightarrow> nat" where
  "get_bucket_index a sz =
     (case a of
        X86_64 \<Rightarrow> (63 - builtin_clzll (if sz > MIN_CACHE_BLOCK then sz - 1 else MIN_CACHE_BLOCK)) - 11
      | Generic \<Rightarrow> bucket_index_loop sz MIN_CACHE_BLOCK 0)"

text \<open>\<open>a \<le> b * MAX_SIZE_RATIO\<close> with \<^verbatim>\<open>MAX_SIZE_RATIO = 1.25\<close>.  The program compares in
  \<^verbatim>\<open>double\<close>; one side is a block size of at most 16 MiB at every call, where the
  comparison of the exact quotients gives the same answer.\<close>
definition within_ratio :: "u64 \<Rightarrow> u64 \<Rightarrow> bool" where
  "within_ratio a b \<longleftrightarrow> 4 * unat a \<le> 5 * unat b"

definition put_entry :: "nat \<Rightarrow> nat \<Rightarrow> cache_entry \<Rightarrow> large_block_cache_t \<Rightarrow> large_block_cache_t" where
  "put_entry b i e lc =
     lc \<lparr> buckets := (buckets lc)(b := (buckets lc b) \<lparr> bk_entries := (bk_entries (buckets lc b))(i := e) \<rparr>) \<rparr>"

definition put_count :: "nat \<Rightarrow> nat \<Rightarrow> large_block_cache_t \<Rightarrow> large_block_cache_t" where
  "put_count b n lc = lc \<lparr> buckets := (buckets lc)(b := (buckets lc b) \<lparr> bk_count := n \<rparr>) \<rparr>"

function get_cached_loop :: "u64 \<Rightarrow> nat \<Rightarrow> nat \<Rightarrow> nat \<Rightarrow> large_block_cache_t \<Rightarrow> addr \<times> large_block_cache_t" where
  "get_cached_loop sz b i cnt lc =
     (if i < cnt then
        (let entry = bk_entries (buckets lc b) i; expected = ce_ptr entry in
         if expected \<noteq> 0 \<and> ce_size entry \<ge> sz \<and> within_ratio (ce_size entry) sz
         then (expected,
               (put_count b (bk_count (buckets lc b) - 1) (put_entry b i (entry \<lparr> ce_ptr := 0 \<rparr>) lc))
                 \<lparr> total_cached := total_cached lc - ce_size entry \<rparr>)
         else get_cached_loop sz b (Suc i) cnt lc)
      else (0, lc))"
  by pat_completeness auto
termination
  by (relation "measure (\<lambda>(sz, b, i, cnt, lc). cnt - i)") auto

declare get_cached_loop.simps [simp del]

definition get_cached_block :: "arch \<Rightarrow> u64 \<Rightarrow> large_block_cache_t \<Rightarrow> addr \<times> large_block_cache_t" where
  "get_cached_block a sz lc =
     (if sz < MIN_CACHE_BLOCK \<or> sz > MAX_CACHE_BLOCK then (0, lc)
      else let bucket_idx = get_bucket_index a sz in
           if bucket_idx \<ge> NUM_BUCKETS then (0, lc)
           else get_cached_loop sz bucket_idx 0 (bk_count (buckets lc bucket_idx)) lc)"

text \<open>The scalar search for the entry with the smallest \<^verbatim>\<open>last_use\<close>.\<close>
function oldest_loop :: "(nat \<Rightarrow> cache_entry) \<Rightarrow> nat \<Rightarrow> u64 \<Rightarrow> nat \<Rightarrow> nat" where
  "oldest_loop es i oldest_time oldest_idx =
     (if i < 4 then
        (if last_use (es i) < oldest_time
         then oldest_loop es (Suc i) (last_use (es i)) i
         else oldest_loop es (Suc i) oldest_time oldest_idx)
      else oldest_idx)"
  by pat_completeness auto
termination
  by (relation "measure (\<lambda>(es, i, t, k). 4 - i)") auto

declare oldest_loop.simps [simp del]

text \<open>The index \<^verbatim>\<open>oldest_idx\<close> that \<^verbatim>\<open>cache_block\<close> evicts at.  An \<^verbatim>\<open>__x86_64__\<close> build
  without AVX2 compiles no search at all and keeps the initial index 0.\<close>
definition find_oldest :: "arch \<Rightarrow> (nat \<Rightarrow> cache_entry) \<Rightarrow> nat" where
  "find_oldest a es = (case a of X86_64 \<Rightarrow> 0 | Generic \<Rightarrow> oldest_loop es 0 (NOT 0) 0)"

text \<open>\<^verbatim>\<open>cache_block\<close>; the time stamp read is the argument \<open>ts\<close>.\<close>
definition cache_block :: "arch \<Rightarrow> u64 \<Rightarrow> addr \<Rightarrow> u64 \<Rightarrow> large_block_cache_t \<Rightarrow> bool \<times> large_block_cache_t" where
  "cache_block a ts ptr sz lc =
     (if sz < MIN_CACHE_BLOCK \<or> sz > MAX_CACHE_BLOCK then (False, lc)
      else let bucket_idx = get_bucket_index a sz in
           if bucket_idx \<ge> NUM_BUCKETS then (False, lc)
           else if total_cached lc + sz > MAX_CACHE_SIZE then (False, lc)
           else let bucket = buckets lc bucket_idx; cnt = bk_count bucket in
                if cnt < BUCKET_SIZE \<and> ce_ptr (bk_entries bucket cnt) = 0
                then (True,
                      (put_count bucket_idx (Suc cnt)
                         (put_entry bucket_idx cnt \<lparr> ce_ptr = ptr, ce_size = sz, last_use = ts \<rparr> lc))
                        \<lparr> total_cached := total_cached lc + sz \<rparr>)
                else let oldest_idx = find_oldest a (bk_entries bucket);
                         oldest2 = bk_entries bucket oldest_idx
                     in if ce_ptr oldest2 \<noteq> 0 \<and> within_ratio sz (ce_size oldest2)
                        then (True,
                              (put_entry bucket_idx oldest_idx \<lparr> ce_ptr = ptr, ce_size = sz, last_use = ts \<rparr> lc)
                                \<lparr> total_cached := total_cached lc - ce_size oldest2 + sz \<rparr>)
                        else (False, lc))"

text \<open>The size \<^verbatim>\<open>clear\<close> and \<^verbatim>\<open>deallocate\<close> unmap for a block of \<open>sz\<close> bytes.\<close>
definition mapped_size :: "u64 \<Rightarrow> u64" where
  "mapped_size sz =
     (let total_size = sz + HEADER_SIZE in
      if total_size \<le> PG_SIZE then PG_SIZE
      else (total_size + PG_SIZE - 1) AND NOT (PG_SIZE - 1))"







section \<open>Coalescing and page return\<close>

text \<open>\<^verbatim>\<open>block_header::try_coalesce\<close> on the header at address \<open>this\<close>; every member access
  of the program is a read of the store as it is at that statement.\<close>
definition try_coalesce :: "addr \<Rightarrow> (addr \<Rightarrow> block_header) \<Rightarrow> bool \<times> (addr \<Rightarrow> block_header)" where
  "try_coalesce this H =
     (if is_memory_mapped (H this) \<or> unat (size_class_hdr (H this)) < TINY_CLASSES then (False, H)
      else
        let nx = next_physical (H this);
            merge_next = (nx \<noteq> 0 \<and> is_free (H nx));
            Hn = (if merge_next then
                    (let combined_size = size_hdr (H this) + size_hdr (H nx) + HEADER_SIZE;
                         H1 = H(this := (H this) \<lparr> next_physical := next_physical (H nx) \<rparr>);
                         nn = next_physical (H1 this);
                         H2 = (if nn \<noteq> 0 then H1(nn := (H1 nn) \<lparr> prev_physical := this \<rparr>) else H1);
                         H3 = H2(this := encode combined_size (size_class_hdr (H2 this)) True (H2 this))
                     in H3(this := set_coalesced True (H3 this)))
                  else H);
            pv = prev_physical (Hn this);
            merge_prev = (pv \<noteq> 0 \<and> is_free (Hn pv));
            Hp = (if merge_prev then
                    (let combined_size = size_hdr (Hn this) + size_hdr (Hn pv) + HEADER_SIZE;
                         H1 = Hn(pv := (Hn pv) \<lparr> next_physical := next_physical (Hn this) \<rparr>);
                         nn = next_physical (H1 this);
                         H2 = (if nn \<noteq> 0 then H1(nn := (H1 nn) \<lparr> prev_physical := prev_physical (H1 this) \<rparr>) else H1);
                         pv2 = prev_physical (H2 this);
                         H3 = H2(pv2 := encode combined_size (size_class_hdr (H2 pv2)) True (H2 pv2));
                         pv3 = prev_physical (H3 this)
                     in H3(pv3 := set_coalesced True (H3 pv3)))
                  else Hn)
        in (merge_next \<or> merge_prev, Hp))"

text \<open>The walk of \<^verbatim>\<open>pool::return_memory\<close> that adds up the sizes of the free blocks.  It
  follows \<^verbatim>\<open>next_physical\<close> until a null link; \<open>None\<close>: it never reaches one.\<close>
partial_function (option) free_space_loop :: "(addr \<Rightarrow> block_header) \<Rightarrow> addr \<Rightarrow> u64 \<Rightarrow> u64 option" where
  "free_space_loop H current free_space =
     (if current = 0 then Some free_space
      else free_space_loop H (next_physical (H current))
             (if is_free (H current) then free_space + size_hdr (H current) else free_space))"

text \<open>The second walk: the whole pages inside each free coalesced block are advised away.\<close>
partial_function (option) advise_loop :: "addr \<Rightarrow> jalloc_state \<Rightarrow> jalloc_state option" where
  "advise_loop current s =
     (if current = 0 then Some s
      else
        let h = headers s current;
            block_start = current + HEADER_SIZE;
            page_start = (block_start + PG_SIZE - 1) AND NOT (PG_SIZE - 1);
            page_end = (block_start + size_hdr h) AND NOT (PG_SIZE - 1);
            s1 = (if is_free h \<and> is_coalesced h \<and> page_end > page_start
                  then snd (madvise_dontneed page_start (page_end - page_start) s)
                  else s)
        in advise_loop (next_physical (headers s1 current)) s1)"

text \<open>\<^verbatim>\<open>pool::return_memory\<close> of the pool at \<open>pl\<close>.  The test
  \<^verbatim>\<open>double(free_space) / PG_SIZE >= 1.0 - MEM_USAGE_THRESHOLD\<close> is written on the exact
  quotient (\<open>free_space / 4096 \<ge> 4/5\<close>).\<close>
definition return_memory :: "addr \<Rightarrow> jalloc_state \<Rightarrow> jalloc_state option" where
  "return_memory pl s =
     (case free_space_loop (headers s) (pl + BITMAP_SIZE) 0 of
        None \<Rightarrow> None
      | Some free_space \<Rightarrow>
          if free_space \<ge> 64 * 1024 \<and> 5 * unat free_space \<ge> 4 * unat PG_SIZE
          then advise_loop (pl + BITMAP_SIZE) s
          else Some s)"

section \<open>The coordinator: allocate\<close>

definition put_header :: "addr \<Rightarrow> block_header \<Rightarrow> jalloc_state \<Rightarrow> jalloc_state" where
  "put_header a h s = s \<lparr> headers := (headers s)(a := h) \<rparr>"

text \<open>\<^verbatim>\<open>block_header::is_aligned\<close>, the guard of \<^verbatim>\<open>deallocate\<close> and \<^verbatim>\<open>reallocate\<close>.\<close>
definition is_aligned :: "(addr \<Rightarrow> block_header) \<Rightarrow> addr \<Rightarrow> bool" where
  "is_aligned H ptr =
     (if \<not> is_base_aligned ptr then False
      else let header = ptr - HEADER_SIZE in
           if \<not> is_base_aligned header then False
           else if magic (H header) \<noteq> HEADER_MAGIC then False
           else let size_alignment = get_alignment_for_size (size_hdr (H header))
                in ptr AND (size_alignment - 1) = 0)"

text \<open>The block \<^verbatim>\<open>if (auto *tiny_pool = tiny_pools_[size_class]) { ... }\<close> of \<^verbatim>\<open>allocate\<close>:
  a user pointer, or null when control falls out of the block.\<close>
definition tiny_attempt :: "u64 \<Rightarrow> u8 \<Rightarrow> jalloc_state \<Rightarrow> addr \<times> jalloc_state" where
  "tiny_attempt sz cls s =
     (let tiny_pool = tiny_pools s (unat cls) in
      if tiny_pool \<noteq> 0 then
        (case allocate_tiny tiny_pool cls s of
           (ptr, s1) \<Rightarrow>
             if ptr \<noteq> 0
             then (ptr + HEADER_SIZE, put_header ptr (init sz cls False 0 0 zero_header) s1)
             else (0, s1))
      else (0, s))"

text \<open>
  The tiny tier of \<^verbatim>\<open>allocate\<close>.  When the class has no pool yet, one is created and
  \<^verbatim>\<open>allocate(size)\<close> calls itself; the inner call runs the same tier with the pool in
  place, which is written out here.  If the inner attempt fell through, the inner call
  would lock the non-recursive \<^verbatim>\<open>init_mutex\<close> its caller holds and not return: \<open>None\<close>.
  A throwing \<^verbatim>\<open>operator new\<close> is caught and gives null.
\<close>
definition allocate_tiny_tier :: "u64 \<Rightarrow> jalloc_state \<Rightarrow> (addr \<times> jalloc_state) option" where
  "allocate_tiny_tier sz s =
     (let cls = ucast (drop_bit 3 (sz - 1)) :: u8 in
      if unat cls \<ge> TINY_CLASSES then Some (0, s)
      else case tiny_attempt sz cls s of
             (p, s1) \<Rightarrow>
               if p \<noteq> 0 then Some (p, s1)
               else if tiny_pools s1 (unat cls) = 0 then
                 (case new_pool s1 of
                    None \<Rightarrow> Some (0, s1)
                  | Some (np, s2) \<Rightarrow>
                      (case tiny_attempt sz cls (s2 \<lparr> tiny_pools := (tiny_pools s2)(unat cls := np) \<rparr>) of
                         (p2, s3) \<Rightarrow> if p2 \<noteq> 0 then Some (p2, s3) else None))
               else Some (0, s1))"

definition set_header_free :: "bool \<Rightarrow> addr \<Rightarrow> jalloc_state \<Rightarrow> jalloc_state" where
  "set_header_free f a s = put_header a (set_free f (headers s a)) s"

definition allocate_small :: "u64 \<Rightarrow> jalloc_state \<Rightarrow> (addr \<times> jalloc_state) option" where
  "allocate_small sz s =
     (let cls = ucast (drop_bit 3 (sz - 1)) :: u8 in
      case thread_cache_get cls s of
        (cached, s1) \<Rightarrow>
          if cached \<noteq> 0 then
            (if is_valid (headers s1 (cached - HEADER_SIZE))
             then Some (cached, set_header_free False (cached - HEADER_SIZE) s1)
             else Some (0, s1))
          else
            (case pool_manager_allocate cls s1 of
               None \<Rightarrow> None
             | Some (ptr, s2) \<Rightarrow>
                 if ptr \<noteq> 0
                 then Some (ptr + HEADER_SIZE, put_header ptr (encode sz cls False zero_header) s2)
                 else Some (0, s2)))"

definition allocate_medium :: "u64 \<Rightarrow> u8 \<Rightarrow> jalloc_state \<Rightarrow> (addr \<times> jalloc_state) option" where
  "allocate_medium sz cls s =
     (case thread_cache_get cls s of
        (cached, s1) \<Rightarrow>
          if cached \<noteq> 0 then Some (cached, set_header_free False (cached - HEADER_SIZE) s1)
          else
            (case pool_manager_allocate cls s1 of
               None \<Rightarrow> None
             | Some (ptr, s2) \<Rightarrow>
                 if ptr \<noteq> 0
                 then Some (ptr + HEADER_SIZE, put_header ptr (encode sz cls False zero_header) s2)
                 else Some (0, s2)))"

definition allocate_large :: "u64 \<Rightarrow> jalloc_state \<Rightarrow> addr \<times> jalloc_state" where
  "allocate_large sz s =
     (case get_cached_block (build_arch s) sz (large_block_cache s) of
        (cached, lc) \<Rightarrow>
          if cached \<noteq> 0
          then (cached, set_header_free False (cached - HEADER_SIZE) (s \<lparr> large_block_cache := lc \<rparr>))
          else
            (let header_size = (HEADER_SIZE + CACHE_LINE_SIZE - 1) AND NOT (CACHE_LINE_SIZE - 1) in
             if sz \<le> PG_SIZE - header_size then
               (case MAP_MEMORY PG_SIZE s of
                  (ptr, s1) \<Rightarrow>
                    if ptr \<noteq> 0
                    then (ptr + header_size,
                          put_header ptr (set_memory_mapped True (init sz 255 False 0 0 zero_header)) s1)
                    else (0, s1))
             else
               (let total_pages = drop_bit 12 (sz + header_size + PG_SIZE - 1);
                    allocation_size = push_bit 12 total_pages
                in case MAP_MEMORY allocation_size s of
                     (ptr, s1) \<Rightarrow>
                       if ptr = 0 then (0, s1)
                       else (ptr + header_size,
                             put_header ptr (set_memory_mapped True (init sz 255 False 0 0 zero_header)) s1))))"

text \<open>\<^verbatim>\<open>Jallocator::allocate\<close>: the pointer returned (null: 0) and the state left;
  \<open>None\<close> when the call does not return.\<close>
definition allocate :: "u64 \<Rightarrow> jalloc_state \<Rightarrow> (addr \<times> jalloc_state) option" where
  "allocate sz s =
     (if sz = 0 \<or> sz > push_bit 47 1 then Some (0, s)
      else if sz \<le> TINY_LARGE_THRESHOLD then allocate_tiny_tier sz s
      else if sz \<ge> PG_SIZE then Some (allocate_large sz s)
      else if sz \<le> SMALL_LARGE_THRESHOLD then
        (let cls = ucast (drop_bit 3 (sz - 1)) :: u8 in
         case thread_cache_get cls s of
           (cached, s1) \<Rightarrow>
             if cached \<noteq> 0 then Some (cached, set_header_free False (cached - HEADER_SIZE) s1)
             else allocate_small sz s1)
      else allocate_medium sz (of_int (31 - int (builtin_clz (sz - 1)))) s)"

section \<open>The coordinator: deallocate\<close>

text \<open>\<^verbatim>\<open>Jallocator::deallocate\<close>; \<open>None\<close> when the call does not return (the walk of
  \<^verbatim>\<open>return_memory\<close> does not end, or \<^verbatim>\<open>pool::deallocate\<close> divides by zero).\<close>
definition deallocate :: "addr \<Rightarrow> jalloc_state \<Rightarrow> jalloc_state option" where
  "deallocate ptr s =
     (if ptr = 0 then Some s
      else if \<not> is_aligned (headers s) ptr then Some s
      else
        let header = ptr - HEADER_SIZE; h = headers s header in
        if \<not> is_valid h then Some s
        else if ptr AND NOT (PG_SIZE - 1) = 0 then Some s
        else
          let cls = size_class_hdr h in
          if unat cls \<ge> SIZE_CLASSES \<and> cls \<noteq> 255 then Some s
          else if unat cls < TINY_CLASSES then
            (if is_free h then Some s
             else let tiny_pool = tiny_pools s (unat cls) in
                  if tiny_pool \<noteq> 0
                  then Some (deallocate_tiny tiny_pool (ptr - HEADER_SIZE) cls (set_header_free True header s))
                  else Some s)
          else if cls = 255 then
            (case get_timestamp s of
               (ts, s0) \<Rightarrow>
                 (case cache_block (build_arch s) ts ptr (size_hdr h) (large_block_cache s) of
                    (ok, lc) \<Rightarrow>
                      if ok then Some (s0 \<lparr> large_block_cache := lc \<rparr>)
                      else if is_memory_mapped h
                      then Some (UNMAP_MEMORY (ptr - HEADER_SIZE) (mapped_size (size_hdr h)) s)
                      else Some (s \<lparr> libc_freed := (ptr - HEADER_SIZE) # libc_freed s \<rparr>)))
          else if is_free h then Some s
          else
            (case thread_cache_put ptr cls s of
               (ok, s1) \<Rightarrow>
                 if ok then Some (set_header_free True header s1)
                 else
                   (let s2 = set_header_free True header s1 in
                    case try_coalesce header (headers s2) of
                      (coalesced, H) \<Rightarrow>
                        (case (if coalesced
                               then return_memory (header AND NOT (PG_SIZE - 1)) (s2 \<lparr> headers := H \<rparr>)
                               else Some (s2 \<lparr> headers := H \<rparr>)) of
                           None \<Rightarrow> None
                         | Some s3 \<Rightarrow> pool_manager_deallocate (ptr - HEADER_SIZE) cls s3))))"

section \<open>The coordinator: reallocate, callocate, cleanup\<close>

text \<open>\<^verbatim>\<open>mremap(block, old_total, new_total, MREMAP_MAYMOVE)\<close>: the next entry of
  \<open>os_remap\<close> is the result (none left, or all ones: \<^verbatim>\<open>MAP_FAILED\<close>); on success the
  contents move with the mapping.\<close>
definition mremap :: "addr \<Rightarrow> u64 \<Rightarrow> u64 \<Rightarrow> jalloc_state \<Rightarrow> addr \<times> jalloc_state" where
  "mremap block old_total new_total s =
     (case os_remap s of
        [] \<Rightarrow> (NOT 0, s)
      | a # rest \<Rightarrow>
          if a = NOT 0 then (a, s \<lparr> os_remap := rest \<rparr>)
          else (a, s \<lparr> os_remap := rest,
                      bytes := (\<lambda>x. if x - a < new_total
                                      then (if x - a < old_total then bytes s (block + (x - a)) else 0)
                                      else bytes s x),
                      headers := (\<lambda>x. if x - a < new_total
                                        then (if x - a < old_total then headers s (block + (x - a)) else zero_header)
                                        else headers s x) \<rparr>))"

text \<open>The copy loop of \<^verbatim>\<open>reallocate\<close> for 4096 bytes and more: eight bytes a step.\<close>
function copy8_loop :: "addr \<Rightarrow> addr \<Rightarrow> nat \<Rightarrow> nat \<Rightarrow> (addr \<Rightarrow> u8) \<Rightarrow> (addr \<Rightarrow> u8)" where
  "copy8_loop dst src i n b =
     (if i < n then copy8_loop dst src (i + 8) n (memcpy (dst + of_nat i) (src + of_nat i) 8 b) else b)"
  by pat_completeness auto
termination
  by (relation "measure (\<lambda>(dst, src, i, n, b). n - i)") auto

declare copy8_loop.simps [simp del]

definition reallocate :: "addr \<Rightarrow> u64 \<Rightarrow> jalloc_state \<Rightarrow> (addr \<times> jalloc_state) option" where
  "reallocate ptr new_size s =
     (if ptr = 0 then allocate new_size s
      else if \<not> is_aligned (headers s) ptr then Some (0, s)
      else if new_size = 0 then
        (case deallocate ptr s of None \<Rightarrow> None | Some s1 \<Rightarrow> Some (0, s1))
      else
        let header = ptr - HEADER_SIZE; h = headers s header in
        if \<not> is_valid h then Some (0, s)
        else if size_hdr h > push_bit 47 1 then Some (0, s)
        else
          let old_size = size_hdr h; old_class = size_class_hdr h in
          if unat old_class < TINY_CLASSES \<and> new_size \<le> push_bit 3 (ucast old_class + 1) then Some (ptr, s)
          else if \<not> unat old_class < TINY_CLASSES \<and> unat old_class < SIZE_CLASSES \<and>
                  new_size \<le> ucast (sc_size (size_classes (unat old_class))) then Some (ptr, s)
          else
            (case (if is_memory_mapped h \<and> build_linux s
                   then mremap (ptr - HEADER_SIZE) (old_size + HEADER_SIZE) (new_size + HEADER_SIZE) s
                   else (NOT 0, s)) of
               (new_block, s1) \<Rightarrow>
                 if new_block \<noteq> NOT 0
                 then Some (new_block + HEADER_SIZE,
                            put_header new_block
                              (set_memory_mapped True (encode new_size 255 False (headers s1 new_block))) s1)
                 else
                   (case allocate new_size s1 of
                      None \<Rightarrow> None
                    | Some (new_ptr, s2) \<Rightarrow>
                        if new_ptr = 0 then Some (0, s2)
                        else
                          (let copy_size = (if old_size < new_size then old_size else new_size);
                               s3 = s2 \<lparr> bytes :=
                                      (if copy_size \<le> 32 then memcpy new_ptr ptr copy_size (bytes s2)
                                       else if copy_size \<ge> 4096
                                       then copy8_loop new_ptr ptr 0 (unat copy_size) (bytes s2)
                                       else memcpy new_ptr ptr copy_size (bytes s2)) \<rparr>
                           in case deallocate ptr s3 of
                                None \<Rightarrow> None
                              | Some s4 \<Rightarrow> Some (new_ptr, s4)))))"

text \<open>The store loop of \<^verbatim>\<open>callocate\<close>: block \<open>i\<close> is the eight bytes at \<open>dst + 8 i\<close>.\<close>
function stream_zero_loop :: "addr \<Rightarrow> nat \<Rightarrow> nat \<Rightarrow> (addr \<Rightarrow> u8) \<Rightarrow> (addr \<Rightarrow> u8)" where
  "stream_zero_loop dst i blks b =
     (if i < blks then stream_zero_loop dst (Suc i) blks (memset_zero (dst + push_bit 3 (of_nat i)) 8 b) else b)"
  by pat_completeness auto
termination
  by (relation "measure (\<lambda>(dst, i, blks, b). blks - i)") auto

declare stream_zero_loop.simps [simp del]

text \<open>The zeroing at the end of \<^verbatim>\<open>callocate\<close> that every build falls back to.\<close>
definition zero_fill :: "addr \<Rightarrow> u64 \<Rightarrow> (addr \<Rightarrow> u8) \<Rightarrow> (addr \<Rightarrow> u8)" where
  "zero_fill ptr total_size b =
     (let align = ptr AND 7;
          b1 = (if align \<noteq> 0 then memset_zero ptr align b else b);
          dst = (if align \<noteq> 0 then ptr + align else ptr);
          total = (if align \<noteq> 0 then total_size - align else total_size);
          blks = drop_bit 3 total;
          b2 = stream_zero_loop dst 0 (unat blks) b1;
          remain = total AND 7
      in if remain \<noteq> 0 then memset_zero (dst + push_bit 3 blks) remain b2 else b2)"

definition zero_range :: "addr \<Rightarrow> u64 \<Rightarrow> jalloc_state \<Rightarrow> jalloc_state" where
  "zero_range dst n s = s \<lparr> bytes := memset_zero dst n (bytes s) \<rparr>"

text \<open>The \<^verbatim>\<open>__linux__\<close> block of \<^verbatim>\<open>callocate\<close>: \<open>True\<close> when it returns the pointer,
  \<open>False\<close> when control leaves the block for the common zeroing; the state it leaves is
  the second component.\<close>
definition callocate_linux :: "addr \<Rightarrow> u64 \<Rightarrow> jalloc_state \<Rightarrow> bool \<times> jalloc_state" where
  "callocate_linux ptr total_size s =
     (if total_size \<ge> 4096 then
        (let page_aligned = (ptr + 4095) AND NOT 4095;
             prefix = page_aligned - ptr;
             suffix = (total_size - prefix) AND 4095;
             middle = total_size - prefix - suffix;
             s1 = (if prefix \<noteq> 0 then zero_range ptr prefix s else s)
         in if middle \<noteq> 0 then
              (case madvise_dontneed page_aligned middle s1 of
                 (ok, s2) \<Rightarrow>
                   if ok
                   then (True, if suffix \<noteq> 0 then zero_range (page_aligned + middle) suffix s2 else s2)
                   else (False, s2))
            else (False, s1))
      else (False, s))"

definition callocate :: "u64 \<Rightarrow> u64 \<Rightarrow> jalloc_state \<Rightarrow> (addr \<times> jalloc_state) option" where
  "callocate num sz s =
     (if num = 0 \<or> sz = 0 then Some (0, s)
      else if num > (NOT 0) div sz then Some (0, s)
      else
        let total_size = num * sz in
        case allocate total_size s of
          None \<Rightarrow> None
        | Some (ptr, s1) \<Rightarrow>
            if ptr = 0 then Some (0, s1)
            else if total_size \<le> 32 then Some (ptr, zero_range ptr total_size s1)
            else
              (case (if build_linux s1 then callocate_linux ptr total_size s1 else (False, s1)) of
                 (done, s2) \<Rightarrow>
                   if done then Some (ptr, s2)
                   else Some (ptr, s2 \<lparr> bytes := zero_fill ptr total_size (bytes s2) \<rparr>)))"




text \<open>The state of a thread before its first call: empty caches, no pools, memory and
  collaborators as given.\<close>
definition initial_state :: "arch \<Rightarrow> bool \<Rightarrow> addr list \<Rightarrow> addr list \<Rightarrow> jalloc_state" where
  "initial_state a lnx news maps =
     \<lparr> thread_cache = (\<lambda>_. \<lparr> tc_blocks = (\<lambda>_. \<lparr> cb_ptr = 0, cb_size_class = 0 \<rparr>), tc_count = 0 \<rparr>),
       pm_pools = (\<lambda>_ _. \<lparr> pe_p = 0, used_blocks = 0 \<rparr>),
       pm_pool_count = (\<lambda>_. 0),
       large_block_cache =
         \<lparr> buckets = (\<lambda>_. \<lparr> bk_count = 0,
                             bk_entries = (\<lambda>_. \<lparr> ce_ptr = 0, ce_size = 0, last_use = 0 \<rparr>) \<rparr>),
           total_cached = 0 \<rparr>,
       tiny_pools = (\<lambda>_. 0),
       bitmaps = (\<lambda>_ _. 0),
       headers = (\<lambda>_. zero_header),
       bytes = (\<lambda>_. 0),
       build_arch = a,
       build_linux = lnx,
       host_new = news,
       host_live = [],
       os_map = maps,
       os_remap = [],
       os_advise = [],
       os_unmapped = [],
       libc_freed = [],
       clock = (\<lambda>n. of_nat n + 1),
       clock_reads = 0 \<rparr>"

section \<open>Concrete states used below\<close>

text \<open>A fresh thread on a build without processor-specific branches, whose first pool
  will be placed at address \<open>0x10000\<close>.\<close>
definition fresh_small :: jalloc_state where
  "fresh_small = initial_state Generic False [0x10000] []"

text \<open>A fresh thread whose first mapping will be placed at the page-aligned address
  \<open>0x7f0000000000\<close> and whose second at \<open>0x7f0001000000\<close>.\<close>
definition fresh_large :: jalloc_state where
  "fresh_large = initial_state Generic False [] [0x7f0000000000, 0x7f0001000000]"

text \<open>The same thread with a header in front of the page-aligned address \<open>0x20000\<close>: size
  8192, class 255, as \<open>init\<close> writes it.\<close>
definition with_large_header :: jalloc_state where
  "with_large_header = put_header 0x1FFC0 (init 8192 255 False 0 0 zero_header) fresh_large"

text \<open>A header of size 4096 and class 255 in front of the page base \<open>0x30000\<close>.\<close>
definition with_page_base_header :: jalloc_state where
  "with_page_base_header = put_header 0x2FFC0 (init 4096 255 False 0 0 zero_header) fresh_large"

text \<open>A header of size 64 and class 255 at address 0, in front of the pointer \<open>0x40\<close> of
  the first page.\<close>
definition with_zero_page_header :: jalloc_state where
  "with_zero_page_header = put_header 0 (init 64 255 False 0 0 zero_header) fresh_large"

text \<open>A fresh thread whose first two pools will be placed at \<open>0x10000\<close> and \<open>0x20000\<close>.\<close>
definition fresh_tiny :: jalloc_state where
  "fresh_tiny = initial_state Generic False [0x10000, 0x20000] []"






text \<open>The thread after \<open>allocate 200\<close>, the caller having filled memory with the byte
  \<open>0xAA\<close>.\<close>
definition reused_dirty :: jalloc_state where
  "reused_dirty = (snd (the (allocate 200 fresh_small))) \<lparr> bytes := (\<lambda>_. 0xAA) \<rparr>"



section \<open>Evaluation\<close>

lemma unat_minus_one_64: "unat (- 1 :: 64 word) = 18446744073709551615"
  by (simp add: unsigned_minus_1_eq_mask mask_eq_exp_minus_1)

lemmas const_defs = CACHE_LINE_SIZE_def PG_SIZE_def TINY_LARGE_THRESHOLD_def SMALL_LARGE_THRESHOLD_def
  ALIGNMENT_def MAX_CACHE_SIZE_def MIN_CACHE_BLOCK_def MAX_CACHE_BLOCK_def CACHE_SIZE_def SIZE_CLASSES_def
  TINY_CLASSES_def MAX_POOLS_def BUCKET_SIZE_def NUM_BUCKETS_def SIZE_MASK_def CLASS_MASK_def MMAP_FLAG_def
  COALESCED_FLAG_def FREE_FLAG_def HEADER_MAGIC_def MAGIC_MASK_def MAGIC_VALUE_def HEADER_SIZE_def BITMAP_SIZE_def

lemmas hdr_defs = init_def encode_def is_valid_def is_free_def size_hdr_def size_class_hdr_def
  set_memory_mapped_def set_free_def zero_header_def is_memory_mapped_def is_coalesced_def set_coalesced_def

lemmas alloc_defs = const_defs hdr_defs builtin_clzll_def builtin_clz_def bit_length.simps unat_minus_one_64
  count_trailing_zeros_def trailing_zeros.simps is_base_aligned_def get_alignment_for_size_def
  size_classes_def memset_zero_def memcpy_def zero_region_def new_pool_def delete_pool_def MAP_MEMORY_def
  UNMAP_MEMORY_def thread_cache_get_def find_free_loop.simps find_free_block_def pool_allocate_def
  allocate_tiny_def pm_allocate_loop.simps pool_manager_allocate_def put_header_def is_aligned_def
  tiny_attempt_def allocate_tiny_tier_def set_header_free_def allocate_small_def allocate_medium_def
  allocate_large_def allocate_def initial_state_def Let_def
  get_bucket_index_def bucket_index_loop.simps within_ratio_def put_entry_def put_count_def
  get_cached_loop.simps get_cached_block_def

lemmas dealloc_defs = deallocate_def cache_block_def find_oldest_def oldest_loop.simps get_timestamp_def
  mapped_size_def thread_cache_put_def try_coalesce_def deallocate_tiny_def mark_free_def
  pool_manager_deallocate_def pm_deallocate_loop.simps pool_deallocate_def

section \<open>The loops of clear and cleanup\<close>















lemma is_valid_size: "is_valid h \<Longrightarrow> \<not> size_hdr h > push_bit 47 1"
  by (auto simp add: is_valid_def split: if_splits)






section \<open>Zeroing\<close>

lemma unat_drop3: "unat (drop_bit 3 (T :: 64 word)) = unat T div 8"
  by (simp add: drop_bit_eq_div unat_div)

lemma and7_mod: "(T :: 64 word) AND 7 = T mod 8"
  using word_mod_2p_is_mask [of 3 T] by (simp add: mask_eq_exp_minus_1)

lemma unat_and7: "unat ((T :: 64 word) AND 7) = unat T mod 8"
  by (simp add: and7_mod unat_mod)

lemma push_drop3: "push_bit 3 (drop_bit 3 (T :: 64 word)) = T - (T AND 7)"
proof -
  have "T div 8 * 8 + T mod 8 = T" by (rule div_mult_mod_eq)
  then have "T div 8 * 8 = T - T mod 8" by (metis add_diff_cancel_right')
  then show ?thesis by (simp add: push_bit_eq_mult drop_bit_eq_div and7_mod)
qed

lemma sub_push_drop3: "T - push_bit 3 (drop_bit 3 T) = (T :: 64 word) AND 7"
  by (simp add: push_drop3)

lemma unat_push_drop3: "unat (push_bit 3 (drop_bit 3 (T :: 64 word))) = 8 * (unat T div 8)"
proof -
  have "unat (T - (T AND 7)) = unat T - unat (T AND 7)"
    by (simp add: unat_sub word_and_le2)
  also have "\<dots> = 8 * (unat T div 8)"
    by (simp add: unat_and7 minus_mod_eq_mult_div)
  finally show ?thesis by (simp add: push_drop3)
qed

lemma push_drop3_le: "push_bit 3 (drop_bit 3 T) \<le> (T :: 64 word)"
  by (simp add: word_le_nat_alt unat_push_drop3)

lemma block_index_less:
  "(k :: 64 word) < push_bit 3 (drop_bit 3 (T :: 64 word)) \<Longrightarrow> unat k div 8 < unat (drop_bit 3 T)"
  by (simp add: word_less_nat_alt unat_push_drop3 unat_drop3)

lemma of_nat_div8: "(of_nat (unat (k :: 64 word) div 8) :: 64 word) = drop_bit 3 k"
  by (metis of_nat_unat ucast_id unat_drop3)

lemma and7_less: "(k :: 64 word) AND 7 < 8"
  by (simp add: word_less_nat_alt unat_and7)

lemma block_offset_less: "(k :: 64 word) - push_bit 3 (of_nat (unat k div 8)) < 8"
  by (simp add: of_nat_div8 sub_push_drop3 and7_less)

lemma word_sub_less: "z \<le> x \<Longrightarrow> x < y \<Longrightarrow> x - z < y - (z :: 64 word)"
  by (metis word_less_minus_mono_left)

lemma memset_zero_at: "a - dst < n \<Longrightarrow> memset_zero dst n b a = 0"
  by (simp add: memset_zero_def)

lemma memset_zero_keep: "b a = 0 \<Longrightarrow> memset_zero dst n b a = 0"
  by (simp add: memset_zero_def)

lemma stream_zero_keep: "b a = 0 \<Longrightarrow> stream_zero_loop dst i n b a = 0"
proof (induction dst i n b rule: stream_zero_loop.induct)
  case (1 dst i blks b)
  show ?case
  proof (cases "i < blks")
    case True
    with 1 show ?thesis
      by (subst stream_zero_loop.simps) (simp add: memset_zero_keep)
  next
    case False
    with 1 show ?thesis
      by (subst stream_zero_loop.simps) simp
  qed
qed

lemma stream_zero_hit:
  "i \<le> j \<Longrightarrow> j < n \<Longrightarrow> a - (dst + push_bit 3 (of_nat j)) < 8 \<Longrightarrow> stream_zero_loop dst i n b a = 0"
proof (induction dst i n b rule: stream_zero_loop.induct)
  case (1 dst i blks b)
  from 1 have lt: "i < blks" by simp
  show ?case
  proof (cases "j = i")
    case True
    with 1 have "memset_zero (dst + push_bit 3 (of_nat i)) 8 b a = 0"
      by (simp add: memset_zero_at)
    then have "stream_zero_loop dst (Suc i) blks (memset_zero (dst + push_bit 3 (of_nat i)) 8 b) a = 0"
      by (rule stream_zero_keep)
    with lt show ?thesis
      by (subst stream_zero_loop.simps) simp
  next
    case False
    with 1 have "Suc i \<le> j" by simp
    with 1 lt have "stream_zero_loop dst (Suc i) blks (memset_zero (dst + push_bit 3 (of_nat i)) 8 b) a = 0"
      by simp
    with lt show ?thesis
      by (subst stream_zero_loop.simps) simp
  qed
qed

text \<open>The blocks of eight bytes and the remainder after them cover \<open>T\<close> bytes.\<close>
lemma zero_tail_at:
  assumes "k < T"
  shows "(if T AND 7 \<noteq> 0
          then memset_zero (dst + push_bit 3 (drop_bit 3 T)) (T AND 7)
                 (stream_zero_loop dst 0 (unat (drop_bit 3 T)) b)
          else stream_zero_loop dst 0 (unat (drop_bit 3 T)) b) (dst + k) = 0"
proof (cases "k < push_bit 3 (drop_bit 3 T)")
  case True
  have "dst + k - (dst + push_bit 3 (of_nat (unat k div 8))) < 8"
    using block_offset_less [of k] by simp
  then have "stream_zero_loop dst 0 (unat (drop_bit 3 T)) b (dst + k) = 0"
    using block_index_less [OF True] by (intro stream_zero_hit [where j = "unat k div 8"]) simp_all
  then show ?thesis by (simp add: memset_zero_keep)
next
  case False
  then have "push_bit 3 (drop_bit 3 T) \<le> k" by simp
  from word_sub_less [OF this assms]
  have lt: "k - push_bit 3 (drop_bit 3 T) < T AND 7" by (simp add: sub_push_drop3)
  then have "T AND 7 \<noteq> 0" by auto
  moreover have "dst + k - (dst + push_bit 3 (drop_bit 3 T)) < T AND 7"
    using lt by simp
  ultimately show ?thesis by (simp add: memset_zero_at)
qed

lemma zero_fill_at:
  assumes "i < n"
  shows "zero_fill ptr n b (ptr + i) = 0"
proof (cases "ptr AND 7 = 0")
  case True
  with zero_tail_at [OF assms, of ptr b] show ?thesis
    by (auto simp add: zero_fill_def Let_def split: if_splits)
next
  case nz: False
  show ?thesis
  proof (cases "i < ptr AND 7")
    case True
    then have "memset_zero ptr (ptr AND 7) b (ptr + i) = 0"
      by (simp add: memset_zero_at)
    then have "stream_zero_loop (ptr + (ptr AND 7)) 0 (unat (drop_bit 3 (n - (ptr AND 7))))
                 (memset_zero ptr (ptr AND 7) b) (ptr + i) = 0"
      by (rule stream_zero_keep)
    with nz show ?thesis
      by (simp add: zero_fill_def Let_def memset_zero_keep)
  next
    case False
    then have "ptr AND 7 \<le> i" by simp
    from word_sub_less [OF this assms]
    have "i - (ptr AND 7) < n - (ptr AND 7)" .
    from zero_tail_at [OF this, of "ptr + (ptr AND 7)" "memset_zero ptr (ptr AND 7) b"] nz
    show ?thesis
      by (auto simp add: zero_fill_def Let_def add.assoc split: if_splits)
  qed
qed


lemma bytes_zero_region: "bytes (zero_region base len s) = memset_zero base len (bytes s)"
  by (simp add: zero_region_def)

lemma bytes_zero_range: "bytes (zero_range dst n s) = memset_zero dst n (bytes s)"
  by (simp add: zero_range_def)

lemma madvise_dontneed_at:
  "madvise_dontneed a len s = (True, s2) \<Longrightarrow> x - a < len \<Longrightarrow> bytes s2 x = 0"
  by (auto simp add: madvise_dontneed_def bytes_zero_region memset_zero_at split: list.splits if_splits)

lemma madvise_dontneed_keep:
  "madvise_dontneed a len s = (ok, s2) \<Longrightarrow> bytes s x = 0 \<Longrightarrow> bytes s2 x = 0"
  by (auto simp add: madvise_dontneed_def bytes_zero_region memset_zero_keep split: list.splits if_splits)

lemma callocate_linux_at:
  assumes "callocate_linux ptr n s = (True, s2)" and "i < n"
  shows "bytes s2 (ptr + i) = 0"
proof -
  define pa where "pa = (ptr + 4095) AND NOT 4095"
  define prefix where "prefix = pa - ptr"
  define T where "T = n - prefix"
  define suffix where "suffix = T AND 4095"
  define middle where "middle = T - suffix"
  define s1 where "s1 = (if prefix \<noteq> 0 then zero_range ptr prefix s else s)"
  from assms(1) obtain s3 where adv: "madvise_dontneed pa middle s1 = (True, s3)"
    and s2: "s2 = (if suffix \<noteq> 0 then zero_range (pa + middle) suffix s3 else s3)"
    by (auto simp add: callocate_linux_def Let_def pa_def prefix_def T_def suffix_def middle_def s1_def
        split: if_splits prod.splits)
  have pa: "pa = ptr + prefix" by (simp add: prefix_def)
  show ?thesis
  proof (cases "i < prefix")
    case True
    then have "prefix \<noteq> 0" by auto
    with True have "bytes s1 (ptr + i) = 0"
      by (simp add: s1_def bytes_zero_range memset_zero_at)
    from madvise_dontneed_keep [OF adv this] show ?thesis
      by (simp add: s2 bytes_zero_range memset_zero_keep)
  next
    case False
    then have "prefix \<le> i" by simp
    from word_sub_less [OF this assms(2)] have k: "i - prefix < T" by (simp add: T_def)
    show ?thesis
    proof (cases "i - prefix < middle")
      case True
      moreover have "ptr + i - pa = i - prefix" by (simp add: pa)
      ultimately have "ptr + i - pa < middle" by (simp only:)
      from madvise_dontneed_at [OF adv this] show ?thesis
        by (simp add: s2 bytes_zero_range memset_zero_keep)
    next
      case False
      then have "middle \<le> i - prefix" by simp
      from word_sub_less [OF this k] have lt: "i - prefix - middle < T - middle" .
      have "T - middle = suffix" by (simp add: middle_def)
      moreover have "ptr + i - (pa + middle) = i - prefix - middle" by (simp add: pa)
      ultimately have "ptr + i - (pa + middle) < suffix" using lt by (simp only:)
      moreover from this have "suffix \<noteq> 0" by auto
      ultimately show ?thesis
        by (simp add: s2 bytes_zero_range memset_zero_at)
    qed
  qed
qed
section \<open>C1: alignment of the pointers returned by allocate\<close>

text \<open>
  Claim C1 says that every non-null result \<open>p\<close> of \<open>allocate n\<close>, on every tier, is
  cache-line aligned and satisfies \<open>is_aligned p\<close>.  The code breaks the second part on
  three of the four tiers.  The small and medium tiers write the header with \<open>encode\<close>
  alone, which leaves the \<open>magic\<close> member zero, so \<open>is_aligned\<close> fails on the magic test
  (requests of 100 and of 1000 bytes below).  The large tier returns the mapping's base
  plus 64, while \<open>is_aligned\<close> asks a block of 4096 bytes or more to sit on a page
  boundary (request of 4096 bytes below).
\<close>
theorem allocate_result_not_is_aligned:
  "map_option fst (allocate 100 fresh_small) = Some 0x10080 \<and>
   is_base_aligned 0x10080 \<and>
   \<not> is_aligned (headers (snd (the (allocate 100 fresh_small)))) 0x10080 \<and>
   map_option fst (allocate 1000 fresh_small) = Some 0x10080 \<and>
   \<not> is_aligned (headers (snd (the (allocate 1000 fresh_small)))) 0x10080 \<and>
   map_option fst (allocate 4096 fresh_large) = Some 0x7f0000000040 \<and>
   is_base_aligned 0x7f0000000040 \<and>
   \<not> is_aligned (headers (snd (the (allocate 4096 fresh_large)))) 0x7f0000000040"
  by (simp add: fresh_small_def fresh_large_def alloc_defs)

section \<open>C2: distinct results of successive allocations\<close>

text \<open>
  Claim C2 says that two successful \<open>allocate\<close> calls of one thread never return the same
  user pointer unless the pointer was deallocated in between, in particular for requests
  of 249 to 256 bytes (size class 31).  The size-class table cuts the slot size of class
  31 to 16 bits, which leaves 0, so every slot of a class-31 pool starts at the same
  address: on a fresh thread two successive calls \<open>allocate 256\<close>, with no call between
  them, both succeed and both return \<open>0x10080\<close>.
\<close>
theorem allocate_256_twice_same_pointer:
  "map_option fst (allocate 256 fresh_small) = Some 0x10080 \<and>
   map_option fst (allocate 256 (snd (the (allocate 256 fresh_small)))) = Some 0x10080"
  by (simp add: fresh_small_def alloc_defs)

section \<open>C3: deallocate on a header whose free flag is set\<close>

text \<open>
  Claim C3 says that \<open>deallocate p\<close> does nothing when the header of \<open>p\<close> passes
  validation and has its free flag set, for every size class including 255.  The tiny
  and the small/medium branches of \<open>deallocate\<close> test \<open>is_free\<close>; the class-255 branch
  does not.  In \<open>with_large_header\<close> the pointer \<open>0x20000\<close> passes \<open>is_aligned\<close>, its
  header is valid, free and of class 255, and \<open>deallocate\<close> admits it to bucket 1 of the
  large-block cache; a second \<open>deallocate\<close> admits it once more.
\<close>
theorem deallocate_free_large_not_noop:
  "is_aligned (headers with_large_header) 0x20000 \<and>
   is_valid (headers with_large_header 0x1FFC0) \<and>
   is_free (headers with_large_header 0x1FFC0) \<and>
   size_class_hdr (headers with_large_header 0x1FFC0) = 255 \<and>
   bk_count (buckets (large_block_cache with_large_header) 1) = 0 \<and>
   map_option (\<lambda>s. bk_count (buckets (large_block_cache s) 1)) (deallocate 0x20000 with_large_header) = Some 1 \<and>
   map_option (\<lambda>s. total_cached (large_block_cache s)) (deallocate 0x20000 with_large_header) = Some 8192 \<and>
   map_option (\<lambda>s. bk_count (buckets (large_block_cache s) 1))
     (deallocate 0x20000 (the (deallocate 0x20000 with_large_header))) = Some 2"
  by (simp add: with_large_header_def fresh_large_def alloc_defs dealloc_defs)

section \<open>C4: round trip through the large-block cache\<close>

text \<open>
  Claim C4 says that a freed large block of 4 KiB to 16 MiB enters the large-block
  cache, so that \<open>p = allocate(8 MiB); deallocate(p); q = allocate(8 MiB)\<close> gives
  \<open>q = p\<close>.  On a fresh thread the first call maps a region at \<open>0x7f0000000000\<close> and
  returns \<open>p = 0x7f0000000040\<close>; \<open>deallocate p\<close> leaves the state as it is (\<open>is_aligned\<close>
  rejects \<open>p\<close>), nothing is unmapped, and the second call maps a new region and returns
  \<open>0x7f0001000040\<close>.
\<close>
theorem large_round_trip_misses_cache:
  "map_option fst (allocate 0x800000 fresh_large) = Some 0x7f0000000040 \<and>
   deallocate 0x7f0000000040 (snd (the (allocate 0x800000 fresh_large)))
     = Some (snd (the (allocate 0x800000 fresh_large))) \<and>
   os_unmapped (snd (the (allocate 0x800000 fresh_large))) = [] \<and>
   map_option fst (allocate 0x800000 (snd (the (allocate 0x800000 fresh_large)))) = Some 0x7f0001000040"
  by (simp add: fresh_large_def alloc_defs dealloc_defs)

section \<open>C5: the page test of deallocate\<close>

text \<open>
  Claim C5 says that \<open>deallocate p\<close> does nothing whenever \<open>p\<close> is the base address of its
  page.  The test in the code is \<^verbatim>\<open>(ptr & ~(PG_SIZE-1)) == 0\<close>: it holds for the
  pointers of the first page of the address space only.  In \<open>with_page_base_header\<close>
  the pointer \<open>0x30000\<close> is a page base with a valid header in front of it, and
  \<open>deallocate\<close> admits it to the large-block cache.
\<close>
theorem deallocate_page_base_not_noop:
  "0x30000 AND (PG_SIZE - 1) = 0 \<and>
   total_cached (large_block_cache with_page_base_header) = 0 \<and>
   map_option (\<lambda>s. total_cached (large_block_cache s)) (deallocate 0x30000 with_page_base_header)
     = Some 4096"
  by (simp add: with_page_base_header_def fresh_large_def alloc_defs dealloc_defs)

text \<open>
  C5 as amended: \<open>deallocate p\<close> returns with the state unchanged whenever \<open>p\<close> lies in
  the first page of the address space, that is, whenever clearing the low twelve bits
  of \<open>p\<close> gives 0.
\<close>
theorem deallocate_zero_page_noop:
  "ptr AND NOT (PG_SIZE - 1) = 0 \<Longrightarrow> deallocate ptr s = Some s"
  by (simp add: deallocate_def Let_def)

text \<open>The amended statement at the pointer \<open>0x40\<close>, which passes \<open>is_aligned\<close> and whose
  header is valid: only the page test stops it.\<close>
theorem deallocate_zero_page_noop_witness:
  "0x40 AND NOT (PG_SIZE - 1) = 0 \<and>
   is_aligned (headers with_zero_page_header) 0x40 \<and>
   is_valid (headers with_zero_page_header 0) \<and>
   deallocate 0x40 with_zero_page_header = Some with_zero_page_header"
  using deallocate_zero_page_noop [of "0x40" with_zero_page_header]
  by (simp add: with_zero_page_header_def fresh_large_def alloc_defs)

section \<open>C6: when try_coalesce merges\<close>




section \<open>C7: reallocate in place\<close>

text \<open>
  Claim C7 says that for \<open>p = allocate(48)\<close> the call \<open>reallocate(p, 56)\<close> returns \<open>p\<close>.
  A request of 48 bytes is of tiny class 5, whose capacity in \<open>reallocate\<close> is
  \<open>(5 + 1) * 8 = 48\<close> bytes; 56 exceeds it, and the block moves to a pool of class 6.
\<close>
theorem reallocate_48_to_56_moves:
  "map_option fst (allocate 48 fresh_tiny) = Some 0x10080 \<and>
   map_option fst (reallocate 0x10080 56 (snd (the (allocate 48 fresh_tiny)))) = Some 0x20080"
  by (simp add: fresh_tiny_def alloc_defs dealloc_defs reallocate_def)

text \<open>
  C7 as amended: \<open>reallocate p n\<close> returns \<open>p\<close> and leaves the state unchanged whenever
  \<open>p\<close> is non-null and passes \<open>is_aligned\<close>, its header is valid, \<open>n\<close> is not 0 and \<open>n\<close> is
  at most the capacity of the header's class: \<open>8 (c + 1)\<close> for a tiny class \<open>c\<close>, the
  16-bit \<open>size\<close> member of the table for a class from 8 to 31.  For \<open>p = allocate(48)\<close>
  that capacity is 48.
\<close>
theorem reallocate_in_place:
  assumes "ptr \<noteq> 0" and "is_aligned (headers s) ptr" and "new_size \<noteq> 0"
    and "is_valid (headers s (ptr - HEADER_SIZE))"
    and "(unat (size_class_hdr (headers s (ptr - HEADER_SIZE))) < TINY_CLASSES \<and>
          new_size \<le> push_bit 3 (ucast (size_class_hdr (headers s (ptr - HEADER_SIZE))) + 1)) \<or>
         (TINY_CLASSES \<le> unat (size_class_hdr (headers s (ptr - HEADER_SIZE))) \<and>
          unat (size_class_hdr (headers s (ptr - HEADER_SIZE))) < SIZE_CLASSES \<and>
          new_size \<le> ucast (sc_size (size_classes (unat (size_class_hdr (headers s (ptr - HEADER_SIZE)))))))"
  shows "reallocate ptr new_size s = Some (ptr, s)"
  using assms is_valid_size [of "headers s (ptr - HEADER_SIZE)"]
  by (auto simp add: reallocate_def Let_def)

text \<open>The amended statement for \<open>p = allocate(48)\<close> and \<open>n = 48\<close>.\<close>
theorem reallocate_in_place_witness:
  "map_option fst (allocate 48 fresh_tiny) = Some 0x10080 \<and>
   is_aligned (headers (snd (the (allocate 48 fresh_tiny)))) 0x10080 \<and>
   is_valid (headers (snd (the (allocate 48 fresh_tiny))) (0x10080 - HEADER_SIZE)) \<and>
   size_class_hdr (headers (snd (the (allocate 48 fresh_tiny))) (0x10080 - HEADER_SIZE)) = 5 \<and>
   reallocate 0x10080 48 (snd (the (allocate 48 fresh_tiny)))
     = Some (0x10080, snd (the (allocate 48 fresh_tiny)))"
  using reallocate_in_place [of "0x10080" "snd (the (allocate 48 fresh_tiny))" 48]
  by (simp add: fresh_tiny_def alloc_defs)

section \<open>C8: cleanup\<close>




section \<open>C9: callocate returns zeroed memory\<close>

text \<open>
  Claim C9: whenever \<open>callocate 1 n\<close> returns a non-null pointer \<open>p\<close>, each of the \<open>n\<close> bytes
  from \<open>p\<close> on is zero in the state it leaves; and it returns null only when
  \<open>allocate n\<close> does (the product \<open>1 * n\<close> cannot overflow, and a request of 0 bytes is
  refused by \<open>allocate\<close> as well).
\<close>
theorem callocate_one_zeroed:
  assumes "callocate 1 n s = Some (p, s')"
  shows "(p \<noteq> 0 \<longrightarrow> (\<forall>i<n. bytes s' (p + i) = 0)) \<and>
         (p = 0 \<longrightarrow> map_option fst (allocate n s) = Some 0)"
proof (cases "n = 0")
  case True
  with assms show ?thesis by (simp add: callocate_def allocate_def)
next
  case nz: False
  have "unat n < 2 ^ 64" using unsigned_less [of n, where 'a = nat] by simp
  then have "unat n \<le> 18446744073709551615" by simp
  moreover from nz have "0 < unat n" by (simp add: unat_gt_0)
  ultimately have "0 < 18446744073709551615 div unat n" by (simp add: div_greater_zero_iff)
  then have "unat ((NOT 0 :: 64 word) div n) \<noteq> 0"
    by (simp add: unat_div unat_minus_one_64)
  then have "(NOT 0 :: 64 word) div n \<noteq> 0" by (metis unat_0)
  then have no_ovf: "\<not> 1 > (NOT 0) div n" by (simp add: word_less_1)
  from assms nz no_ovf obtain ptr s1 where al: "allocate n s = Some (ptr, s1)"
    by (auto simp add: callocate_def Let_def split: option.splits)
  show ?thesis
  proof (cases "ptr = 0")
    case True
    with assms nz no_ovf al show ?thesis by (simp add: callocate_def Let_def)
  next
    case pnz: False
    show ?thesis
    proof (cases "n \<le> 32")
      case True
      with assms nz no_ovf al pnz show ?thesis
        by (auto simp add: callocate_def Let_def bytes_zero_range memset_zero_at)
    next
      case big: False
      obtain fin s2 where lx: "(if build_linux s1 then callocate_linux ptr n s1 else (False, s1)) = (fin, s2)"
        by (cases "if build_linux s1 then callocate_linux ptr n s1 else (False, s1)")
      show ?thesis
      proof (cases fin)
        case True
        with lx have "callocate_linux ptr n s1 = (True, s2)" by (auto split: if_splits)
        from callocate_linux_at [OF this] assms nz no_ovf al pnz big lx True show ?thesis
          by (auto simp add: callocate_def Let_def)
      next
        case False
        with assms nz no_ovf al pnz big lx show ?thesis
          by (auto simp add: callocate_def Let_def zero_fill_at)
      qed
    qed
  qed
qed

text \<open>The theorem at \<open>n = 200\<close> on memory that held \<open>0xAA\<close> everywhere: the last byte of the
  region is cleared, the byte after it is not touched.\<close>
theorem callocate_one_zeroed_witness:
  "map_option fst (callocate 1 200 reused_dirty) = Some 0x10080 \<and>
   bytes reused_dirty (0x10080 + 199) = 0xAA \<and>
   bytes (snd (the (callocate 1 200 reused_dirty))) (0x10080 + 199) = 0"
proof -
  have ev: "map_option fst (callocate 1 200 reused_dirty) = Some 0x10080"
    by (simp add: reused_dirty_def fresh_small_def callocate_def alloc_defs)
  then have "callocate 1 200 reused_dirty = Some (0x10080, snd (the (callocate 1 200 reused_dirty)))"
    by (cases "callocate 1 200 reused_dirty") auto
  from callocate_one_zeroed [OF this]
  have zeroed: "\<forall>i<200. bytes (snd (the (callocate 1 200 reused_dirty))) (0x10080 + i) = 0"
    by simp
  have "bytes (snd (the (callocate 1 200 reused_dirty))) (0x10080 + 199) = 0"
    using zeroed [rule_format, of 199] by simp
  moreover have "bytes reused_dirty (0x10080 + 199) = 0xAA"
    by (simp add: reused_dirty_def)
  ultimately show ?thesis using ev by simp
qed

section \<open>C10: the bound on the cached bytes\<close>


end
